theory Spec2Isabelle
  imports
    Main
    "HOL-Library.AList"
    "HOL-Library.Multiset"
    "HOL-Library.Char_ord"
    "HOL-Library.List_Lexorder"
begin

section \<open>Values, errors and the environment of the service\<close>

text \<open>
  The service is a set of FastAPI endpoints in \<^verbatim>\<open>main.py\<close>. An endpoint either returns a
  JSON body or raises. \<open>HTTPException c d\<close> is the exception the code raises itself, with
  status code \<open>c\<close> and detail \<open>d\<close>; \<open>Unhandled n\<close> is a Python exception of class \<open>n\<close>
  that no handler of the code catches (the server answers it with status 500).
\<close>

datatype http_error = HTTPException nat string | Unhandled string

text \<open>
  A history entry is a Python dict with string keys whose values are strings: that is what
  every generation endpoint and \<^verbatim>\<open>/save-content\<close> write. Keys keep their insertion order.
\<close>

type_synonym entry = "(string \<times> string) list"

text \<open>
  What the module reads from outside itself. \<open>OPENAI_API_KEY\<close> is the environment
  variable (\<open>None\<close> when unset). \<open>chat_completion p\<close> stands for the value of
  \<^verbatim>\<open>openai.chat.completions.create(...).choices[0].message.content.strip()\<close> on prompt \<open>p\<close>
  and \<open>image_generate p\<close> for \<^verbatim>\<open>openai.images.generate(...).data[0].url\<close>: \<open>Inr v\<close> when
  the expression evaluates to \<open>v\<close>, \<open>Inl m\<close> when it raises an exception \<open>e\<close> with
  \<open>str(e) = m\<close>. \<open>jwt_decode t\<close> is \<^verbatim>\<open>jwt.decode(t, SECRET_KEY, algorithms=[ALGORITHM])\<close>:
  the payload, or \<open>None\<close> when it raises \<^verbatim>\<open>JWTError\<close>.
\<close>

record env =
  OPENAI_API_KEY :: "string option"
  chat_completion :: "string \<Rightarrow> string + string"
  image_generate :: "string \<Rightarrow> string + string"
  jwt_decode :: "string \<Rightarrow> (string \<rightharpoonup> string) option"

text \<open>Python's \<^verbatim>\<open>not OPENAI_API_KEY\<close>: true for \<^verbatim>\<open>None\<close> and for the empty string.\<close>

definition key_unset :: "string option \<Rightarrow> bool" where
  "key_unset k = (k = None \<or> k = Some [])"

section \<open>Quiz models\<close>

record QuizQuestion =
  question :: string
  options :: "string list"
  answer :: int

record Quiz =
  title :: string
  questions :: "QuizQuestion list"
  created_by :: string
  created_at :: "string option"

record QuizSubmission =
  quiz_id :: string
  answers :: "int list"

text \<open>The dict stored under \<^verbatim>\<open>quiz_results\<close> by \<^verbatim>\<open>submit_quiz\<close>.\<close>

record quiz_result =
  qr_user :: string
  qr_quiz_id :: string
  qr_score :: nat
  qr_total :: nat
  qr_submitted_at :: string
  qr_answers :: "int list"

text \<open>JSON-like Python values, for the dicts that \<^verbatim>\<open>to_dict()\<close> returns for a quiz.\<close>

datatype pyval =
    PNone
  | PInt int
  | PStr string
  | PList "pyval list"
  | PDict "(string \<times> pyval) list"

type_synonym pydict = "(string \<times> pyval) list"

section \<open>The document store\<close>

text \<open>
  \<open>db\<close> is the module-level Firestore client, \<open>None\<close> when initialisation failed.
  \<open>users\<close> is the \<^verbatim>\<open>users\<close> collection, \<open>history u\<close> the \<^verbatim>\<open>history\<close> subcollection of
  user \<open>u\<close> in the order \<^verbatim>\<open>stream()\<close> yields it, \<open>quizzes\<close> the \<^verbatim>\<open>quizzes\<close> collection
  (document id and the quiz that \<^verbatim>\<open>create_quiz\<close> wrote), \<open>quiz_results u\<close> the
  \<^verbatim>\<open>quiz_results\<close> subcollection of user \<open>u\<close>. A configured client is taken to answer:
  a Firestore call that raises is outside this model. Of a user record the code reads only
  \<^verbatim>\<open>username\<close> (and the password hash at login, which is not modelled).
\<close>

record store =
  users :: "string \<rightharpoonup> entry"
  history :: "string \<Rightarrow> entry list"
  quizzes :: "(string \<times> Quiz) list"
  quiz_results :: "string \<Rightarrow> quiz_result list"

type_synonym db = "store option"

type_synonym 'a result = "(http_error + 'a) \<times> db"

text \<open>
  \<^verbatim>\<open>if db: db.collection("users").document(user).collection("history").add(entry)\<close>:
  nothing happens when \<open>db\<close> is \<open>None\<close>.
\<close>

definition add_history :: "db \<Rightarrow> string \<Rightarrow> entry \<Rightarrow> db" where
  "add_history db user e =
     (case db of
        None \<Rightarrow> None
      | Some st \<Rightarrow> Some (st\<lparr>history := (history st)(user := history st user @ [e])\<rparr>))"

section \<open>Authentication\<close>

definition get_user :: "db \<Rightarrow> string \<Rightarrow> entry option" where
  "get_user db username =
     (case db of None \<Rightarrow> None | Some st \<Rightarrow> users st username)"

definition credentials_exception :: http_error where
  "credentials_exception = HTTPException 401 ''Could not validate credentials''"

definition get_current_user :: "env \<Rightarrow> db \<Rightarrow> string \<Rightarrow> http_error + entry" where
  "get_current_user env db token =
     (case jwt_decode env token of
        None \<Rightarrow> Inl credentials_exception
      | Some payload \<Rightarrow>
          (case payload ''sub'' of
             None \<Rightarrow> Inl credentials_exception
           | Some username \<Rightarrow>
               (case get_user db username of
                  None \<Rightarrow> Inl credentials_exception
                | Some u \<Rightarrow> Inr u)))"

section \<open>History: saving and listing\<close>

record Content =
  content_user :: string
  content_prompt :: string
  content_output :: string
  content_type :: string

record save_response =
  save_status :: string
  save_entry :: entry

definition save_content :: "db \<Rightarrow> string \<Rightarrow> Content \<Rightarrow> entry \<Rightarrow> save_response result" where
  "save_content db now data current_user =
     (case db of
        None \<Rightarrow> (Inl (HTTPException 500 ''Database not connected''), db)
      | Some st \<Rightarrow>
          (let e = [(''user'', content_user data), (''prompt'', content_prompt data),
                    (''output'', content_output data), (''type'', content_type data),
                    (''created_at'', now)]
           in case map_of current_user ''username'' of
                None \<Rightarrow> (Inl (Unhandled ''KeyError''), db)
              | Some un \<Rightarrow>
                  (Inr \<lparr>save_status = ''saved'', save_entry = e\<rparr>, add_history db un e)))"

text \<open>\<^verbatim>\<open>k.get('created_at', '')\<close>, the sort key of the listing.\<close>

definition created_at_key :: "entry \<Rightarrow> string" where
  "created_at_key k = (case map_of k ''created_at'' of None \<Rightarrow> [] | Some v \<Rightarrow> v)"

text \<open>
  \<^verbatim>\<open>sorted(xs, key=f, reverse=True)\<close>: Python's sort is stable and \<^verbatim>\<open>reverse=True\<close> keeps
  elements with equal keys in their original order, which is the reverse of a stable
  ascending sort of the reversed list. Strings compare lexicographically.
\<close>

definition py_sorted_reverse :: "('a \<Rightarrow> 'k::linorder) \<Rightarrow> 'a list \<Rightarrow> 'a list" where
  "py_sorted_reverse f xs = rev (sort_key f (rev xs))"

definition get_history :: "db \<Rightarrow> string \<Rightarrow> http_error + entry list" where
  "get_history db user =
     (case db of
        None \<Rightarrow> Inl (HTTPException 500 ''Database not connected'')
      | Some st \<Rightarrow> Inr (py_sorted_reverse created_at_key (history st user)))"

section \<open>Generation endpoints\<close>

text \<open>The body \<^verbatim>\<open>{"status": "ok", "entry": entry}\<close>.\<close>

record gen_response =
  resp_status :: string
  resp_entry :: entry

definition generate_text :: "env \<Rightarrow> db \<Rightarrow> string \<Rightarrow> string \<Rightarrow> string \<Rightarrow> gen_response result" where
  "generate_text env db now user prompt =
     (if key_unset (OPENAI_API_KEY env)
      then (Inl (HTTPException 500 ''OpenAI API key not set''), db)
      else
        (let output = (case chat_completion env prompt of
                         Inr r \<Rightarrow> r
                       | Inl e \<Rightarrow> ''[OpenAI error: '' @ e @ '']'');
             e = [(''user'', user), (''prompt'', prompt), (''output'', output),
                  (''type'', ''text''), (''created_at'', now)]
         in (Inr \<lparr>resp_status = ''ok'', resp_entry = e\<rparr>, add_history db user e)))"

definition generate_image :: "env \<Rightarrow> db \<Rightarrow> string \<Rightarrow> string \<Rightarrow> string \<Rightarrow> gen_response result" where
  "generate_image env db now user prompt =
     (if key_unset (OPENAI_API_KEY env)
      then (Inl (HTTPException 500 ''OpenAI API key not set''), db)
      else
        (let (image_url, prompt') =
               (case image_generate env prompt of
                  Inr u \<Rightarrow> (u, prompt)
                | Inl e \<Rightarrow> (''https://placehold.co/400x300?text=OpenAI+Error'',
                            ''[OpenAI error: '' @ e @ ''] '' @ prompt));
             e = [(''user'', user), (''prompt'', prompt'), (''storage_url'', image_url),
                  (''media_type'', ''image''), (''type'', ''image_generation''),
                  (''created_at'', now)]
         in (Inr \<lparr>resp_status = ''ok'', resp_entry = e\<rparr>, add_history db user e)))"

definition generate_video :: "db \<Rightarrow> string \<Rightarrow> string \<Rightarrow> string \<Rightarrow> gen_response result" where
  "generate_video db now user prompt =
     (let video_url = ''https://www.w3schools.com/html/mov_bbb.mp4'';
          e = [(''user'', user), (''prompt'', prompt), (''storage_url'', video_url),
               (''media_type'', ''video''), (''type'', ''video_generation''),
               (''created_at'', now)]
      in (Inr \<lparr>resp_status = ''ok'', resp_entry = e\<rparr>, add_history db user e))"

definition generate_animation :: "db \<Rightarrow> string \<Rightarrow> string \<Rightarrow> string \<Rightarrow> gen_response result" where
  "generate_animation db now user prompt =
     (let animation_url = ''https://media.giphy.com/media/ICOgUNjpvO0PC/giphy.gif'';
          e = [(''user'', user), (''prompt'', prompt), (''storage_url'', animation_url),
               (''media_type'', ''animation''), (''type'', ''animation_generation''),
               (''created_at'', now)]
      in (Inr \<lparr>resp_status = ''ok'', resp_entry = e\<rparr>, add_history db user e))"

subsection \<open>Provider adapters\<close>

definition generate_text_openai :: "env \<Rightarrow> string \<Rightarrow> string + string" where
  "generate_text_openai env prompt = chat_completion env prompt"

definition generate_text_gemini :: "string \<Rightarrow> string" where
  "generate_text_gemini prompt = ''[Gemini] '' @ prompt @ '' (stub)''"

definition generate_text_claude :: "string \<Rightarrow> string" where
  "generate_text_claude prompt = ''[Claude] '' @ prompt @ '' (stub)''"

definition generate_text_manus :: "string \<Rightarrow> string" where
  "generate_text_manus prompt = ''[Manus] '' @ prompt @ '' (stub)''"

definition generate_image_openai :: "env \<Rightarrow> string \<Rightarrow> string + string" where
  "generate_image_openai env prompt = image_generate env prompt"

definition generate_image_gemini :: "string \<Rightarrow> string" where
  "generate_image_gemini prompt = ''https://placehold.co/1024x1024?text=Gemini+Image+Stub''"

definition generate_image_claude :: "string \<Rightarrow> string" where
  "generate_image_claude prompt = ''https://placehold.co/1024x1024?text=Claude+Image+Stub''"

definition generate_image_manus :: "string \<Rightarrow> string" where
  "generate_image_manus prompt = ''https://placehold.co/1024x1024?text=Manus+Image+Stub''"

definition generate_video_ai :: "string \<Rightarrow> string \<Rightarrow> string" where
  "generate_video_ai prompt provider =
     (if provider = ''openai'' then ''https://www.w3schools.com/html/mov_bbb.mp4''
      else ''https://placehold.co/640x360?text='' @ provider @ ''+Video+Stub'')"

definition generate_cartoon_video :: "string \<Rightarrow> string \<Rightarrow> string" where
  "generate_cartoon_video prompt provider =
     (if provider = ''openai'' then ''https://media.giphy.com/media/ICOgUNjpvO0PC/giphy.gif''
      else ''https://placehold.co/400x300?text='' @ provider @ ''+Cartoon+Stub'')"

definition generate_voiceover :: "string \<Rightarrow> string \<Rightarrow> string" where
  "generate_voiceover prompt provider =
     (if provider = ''openai'' then ''https://www.soundhelix.com/examples/mp3/SoundHelix-Song-1.mp3''
      else ''https://placehold.co/300x50?text='' @ provider @ ''+Voice+Stub'')"

subsection \<open>Advanced endpoints\<close>

text \<open>
  The bodies of the advanced endpoints. \<open>model\<close> and \<open>current_user\<close> are parameters of the
  source functions that their bodies never read; \<open>current_user\<close> is the value the
  dependency \<^verbatim>\<open>Depends(get_current_user)\<close> resolved.
\<close>

definition generate_text_advanced ::
  "env \<Rightarrow> db \<Rightarrow> string \<Rightarrow> string \<Rightarrow> string \<Rightarrow> string \<Rightarrow> string option \<Rightarrow> entry \<Rightarrow> gen_response result" where
  "generate_text_advanced env db now user prompt provider model current_user =
     (if key_unset (OPENAI_API_KEY env) \<and> provider = ''openai''
      then (Inl (HTTPException 500 ''OpenAI API key not set''), db)
      else
        (let output =
               (case (if provider = ''openai'' then generate_text_openai env prompt
                      else if provider = ''gemini'' then Inr (generate_text_gemini prompt)
                      else if provider = ''claude'' then Inr (generate_text_claude prompt)
                      else if provider = ''manus'' then Inr (generate_text_manus prompt)
                      else Inr (''[Unknown provider: '' @ provider @ '']'')) of
                  Inr r \<Rightarrow> r
                | Inl e \<Rightarrow> ''[AI error: '' @ e @ '']'');
             e = [(''user'', user), (''prompt'', prompt), (''output'', output),
                  (''type'', ''text_'' @ provider), (''provider'', provider),
                  (''created_at'', now)]
         in (Inr \<lparr>resp_status = ''ok'', resp_entry = e\<rparr>, add_history db user e)))"

definition generate_image_advanced ::
  "env \<Rightarrow> db \<Rightarrow> string \<Rightarrow> string \<Rightarrow> string \<Rightarrow> string \<Rightarrow> string option \<Rightarrow> entry \<Rightarrow> gen_response result" where
  "generate_image_advanced env db now user prompt provider model current_user =
     (if key_unset (OPENAI_API_KEY env) \<and> provider = ''openai''
      then (Inl (HTTPException 500 ''OpenAI API key not set''), db)
      else
        (let (image_url, prompt') =
               (case (if provider = ''openai'' then generate_image_openai env prompt
                      else if provider = ''gemini'' then Inr (generate_image_gemini prompt)
                      else if provider = ''claude'' then Inr (generate_image_claude prompt)
                      else if provider = ''manus'' then Inr (generate_image_manus prompt)
                      else Inr (''https://placehold.co/400x300?text='' @ provider @ ''+Image+Stub'')) of
                  Inr u \<Rightarrow> (u, prompt)
                | Inl e \<Rightarrow> (''https://placehold.co/400x300?text=AI+Error'',
                            ''[AI error: '' @ e @ ''] '' @ prompt));
             e = [(''user'', user), (''prompt'', prompt'), (''storage_url'', image_url),
                  (''media_type'', ''image''), (''type'', ''image_generation_'' @ provider),
                  (''provider'', provider), (''created_at'', now)]
         in (Inr \<lparr>resp_status = ''ok'', resp_entry = e\<rparr>, add_history db user e)))"

definition generate_video_advanced ::
  "db \<Rightarrow> string \<Rightarrow> string \<Rightarrow> string \<Rightarrow> string \<Rightarrow> string option \<Rightarrow> entry \<Rightarrow> gen_response result" where
  "generate_video_advanced db now user prompt provider model current_user =
     (let video_url = generate_video_ai prompt provider;
          e = [(''user'', user), (''prompt'', prompt), (''storage_url'', video_url),
               (''media_type'', ''video''), (''type'', ''video_generation_'' @ provider),
               (''provider'', provider), (''created_at'', now)]
      in (Inr \<lparr>resp_status = ''ok'', resp_entry = e\<rparr>, add_history db user e))"

definition generate_cartoon_advanced ::
  "db \<Rightarrow> string \<Rightarrow> string \<Rightarrow> string \<Rightarrow> string \<Rightarrow> string option \<Rightarrow> entry \<Rightarrow> gen_response result" where
  "generate_cartoon_advanced db now user prompt provider model current_user =
     (let cartoon_url = generate_cartoon_video prompt provider;
          e = [(''user'', user), (''prompt'', prompt), (''storage_url'', cartoon_url),
               (''media_type'', ''animation''), (''type'', ''cartoon_generation_'' @ provider),
               (''provider'', provider), (''created_at'', now)]
      in (Inr \<lparr>resp_status = ''ok'', resp_entry = e\<rparr>, add_history db user e))"

definition generate_voiceover_advanced ::
  "db \<Rightarrow> string \<Rightarrow> string \<Rightarrow> string \<Rightarrow> string \<Rightarrow> string option \<Rightarrow> entry \<Rightarrow> gen_response result" where
  "generate_voiceover_advanced db now user prompt provider model current_user =
     (let voice_url = generate_voiceover prompt provider;
          e = [(''user'', user), (''prompt'', prompt), (''storage_url'', voice_url),
               (''media_type'', ''audio''), (''type'', ''voiceover_generation_'' @ provider),
               (''provider'', provider), (''created_at'', now)]
      in (Inr \<lparr>resp_status = ''ok'', resp_entry = e\<rparr>, add_history db user e))"

subsection \<open>Routing\<close>

text \<open>
  The nine generation routes. The plain ones take \<^verbatim>\<open>user\<close> and \<^verbatim>\<open>prompt\<close> from the body;
  the advanced ones also take \<^verbatim>\<open>provider\<close> (default \<^verbatim>\<open>"openai"\<close>) and \<^verbatim>\<open>model\<close>
  (default \<^verbatim>\<open>None\<close>), and depend on \<^verbatim>\<open>get_current_user\<close>.
\<close>

datatype endpoint =
    GenerateText
  | GenerateImage
  | GenerateVideo
  | GenerateAnimation
  | GenerateTextAdvanced
  | GenerateImageAdvanced
  | GenerateVideoAdvanced
  | GenerateCartoonAdvanced
  | GenerateVoiceoverAdvanced

record gen_request =
  req_user :: string
  req_prompt :: string
  req_provider :: "string option"
  req_model :: "string option"

definition body_provider :: "gen_request \<Rightarrow> string" where
  "body_provider req = (case req_provider req of None \<Rightarrow> ''openai'' | Some p \<Rightarrow> p)"

definition advanced :: "endpoint \<Rightarrow> bool" where
  "advanced ep = (ep \<in> {GenerateTextAdvanced, GenerateImageAdvanced, GenerateVideoAdvanced,
                         GenerateCartoonAdvanced, GenerateVoiceoverAdvanced})"

text \<open>The endpoint body that a route runs, once its dependencies are resolved.\<close>

definition route ::
  "endpoint \<Rightarrow> env \<Rightarrow> db \<Rightarrow> string \<Rightarrow> gen_request \<Rightarrow> entry \<Rightarrow> gen_response result" where
  "route ep env db now req current_user =
     (case ep of
        GenerateText \<Rightarrow> generate_text env db now (req_user req) (req_prompt req)
      | GenerateImage \<Rightarrow> generate_image env db now (req_user req) (req_prompt req)
      | GenerateVideo \<Rightarrow> generate_video db now (req_user req) (req_prompt req)
      | GenerateAnimation \<Rightarrow> generate_animation db now (req_user req) (req_prompt req)
      | GenerateTextAdvanced \<Rightarrow>
          generate_text_advanced env db now (req_user req) (req_prompt req)
            (body_provider req) (req_model req) current_user
      | GenerateImageAdvanced \<Rightarrow>
          generate_image_advanced env db now (req_user req) (req_prompt req)
            (body_provider req) (req_model req) current_user
      | GenerateVideoAdvanced \<Rightarrow>
          generate_video_advanced db now (req_user req) (req_prompt req)
            (body_provider req) (req_model req) current_user
      | GenerateCartoonAdvanced \<Rightarrow>
          generate_cartoon_advanced db now (req_user req) (req_prompt req)
            (body_provider req) (req_model req) current_user
      | GenerateVoiceoverAdvanced \<Rightarrow>
          generate_voiceover_advanced db now (req_user req) (req_prompt req)
            (body_provider req) (req_model req) current_user)"

text \<open>
  A request with its bearer token: an advanced route first resolves \<^verbatim>\<open>get_current_user\<close>
  and answers with its exception when that fails; a plain route has no dependency.
\<close>

definition handle ::
  "endpoint \<Rightarrow> env \<Rightarrow> db \<Rightarrow> string \<Rightarrow> string \<Rightarrow> gen_request \<Rightarrow> gen_response result" where
  "handle ep env db now token req =
     (if advanced ep
      then (case get_current_user env db token of
              Inl err \<Rightarrow> (Inl err, db)
            | Inr current_user \<Rightarrow> route ep env db now req current_user)
      else route ep env db now req [])"

text \<open>
  \<^verbatim>\<open>/save-content\<close> as a request: it depends on \<^verbatim>\<open>get_current_user\<close> too, so its body
  runs only for a token that authenticates.
\<close>

definition handle_save_content ::
  "env \<Rightarrow> db \<Rightarrow> string \<Rightarrow> string \<Rightarrow> Content \<Rightarrow> save_response result" where
  "handle_save_content env db now token data =
     (case get_current_user env db token of
        Inl err \<Rightarrow> (Inl err, db)
      | Inr current_user \<Rightarrow> save_content db now data current_user)"

text \<open>
  \<open>entry_field res k\<close> reads key \<open>k\<close> of the entry in the body of a response: \<open>None\<close> when
  the request raised or the entry has no such key.
\<close>

definition entry_field :: "gen_response result \<Rightarrow> string \<Rightarrow> string option" where
  "entry_field res k =
     (case fst res of Inl err \<Rightarrow> None | Inr r \<Rightarrow> map_of (resp_entry r) k)"

text \<open>Python's \<^verbatim>\<open>sub in s\<close> on strings.\<close>

fun py_in :: "string \<Rightarrow> string \<Rightarrow> bool" where
  "py_in sub [] = (sub = [])"
| "py_in sub (c # cs) = (take (length sub) (c # cs) = sub \<or> py_in sub cs)"

subsection \<open>Content kinds of the specification\<close>

text \<open>
  The source has no kind field: the route fixes the kind. The specification's data model
  names five kinds, \<^verbatim>\<open>text\<close>, \<^verbatim>\<open>image\<close>, \<^verbatim>\<open>video\<close>, \<^verbatim>\<open>animation\<close> and \<^verbatim>\<open>voiceover\<close>;
  \<^verbatim>\<open>/generate-animation\<close> and \<^verbatim>\<open>/generate-cartoon-advanced\<close> are the two routes of the
  animation kind.
\<close>

datatype kind = Text | Image | Video | Animation | Voiceover

definition kind_name :: "kind \<Rightarrow> string" where
  "kind_name k =
     (case k of Text \<Rightarrow> ''text'' | Image \<Rightarrow> ''image'' | Video \<Rightarrow> ''video''
      | Animation \<Rightarrow> ''animation'' | Voiceover \<Rightarrow> ''voiceover'')"

definition endpoint_kind :: "endpoint \<Rightarrow> kind" where
  "endpoint_kind ep =
     (case ep of
        GenerateText \<Rightarrow> Text
      | GenerateImage \<Rightarrow> Image
      | GenerateVideo \<Rightarrow> Video
      | GenerateAnimation \<Rightarrow> Animation
      | GenerateTextAdvanced \<Rightarrow> Text
      | GenerateImageAdvanced \<Rightarrow> Image
      | GenerateVideoAdvanced \<Rightarrow> Video
      | GenerateCartoonAdvanced \<Rightarrow> Animation
      | GenerateVoiceoverAdvanced \<Rightarrow> Voiceover)"

section \<open>Quiz endpoints\<close>

text \<open>\<^verbatim>\<open>to_dict()\<close> of a stored quiz: the dict that \<^verbatim>\<open>quiz.dict()\<close> produced.\<close>

definition question_dict :: "QuizQuestion \<Rightarrow> pydict" where
  "question_dict q =
     [(''question'', PStr (question q)),
      (''options'', PList (map PStr (options q))),
      (''answer'', PInt (answer q))]"

definition quiz_dict :: "Quiz \<Rightarrow> pydict" where
  "quiz_dict q =
     [(''title'', PStr (title q)),
      (''questions'', PList (map (\<lambda>x. PDict (question_dict x)) (questions q))),
      (''created_by'', PStr (created_by q)),
      (''created_at'', (case created_at q of None \<Rightarrow> PNone | Some t \<Rightarrow> PStr t))]"

record create_response =
  cr_status :: string
  cr_quiz_id :: string

text \<open>\<open>new_id\<close> is the id that \<^verbatim>\<open>db.collection("quizzes").document()\<close> generates.\<close>

definition create_quiz :: "db \<Rightarrow> string \<Rightarrow> string \<Rightarrow> Quiz \<Rightarrow> entry \<Rightarrow> create_response result" where
  "create_quiz db now new_id quiz current_user =
     (case db of
        None \<Rightarrow> (Inl (HTTPException 500 ''Database not connected''), db)
      | Some st \<Rightarrow>
          (case map_of current_user ''username'' of
             None \<Rightarrow> (Inl (Unhandled ''KeyError''), db)
           | Some un \<Rightarrow>
               (Inr \<lparr>cr_status = ''created'', cr_quiz_id = new_id\<rparr>,
                Some (st\<lparr>quizzes :=
                  AList.update new_id (quiz\<lparr>created_by := un, created_at := Some now\<rparr>)
                    (quizzes st)\<rparr>))))"

text \<open>
  \<^verbatim>\<open>d = q.to_dict(); d["id"] = q.id; d.pop("answer", None); result.append(d)\<close>
  for each document of the collection.
\<close>

definition list_quizzes :: "db \<Rightarrow> entry \<Rightarrow> http_error + pydict list" where
  "list_quizzes db current_user =
     (case db of
        None \<Rightarrow> Inl (HTTPException 500 ''Database not connected'')
      | Some st \<Rightarrow>
          Inr (map (\<lambda>(qid, q). AList.delete ''answer'' (AList.update ''id'' (PStr qid) (quiz_dict q)))
                 (quizzes st)))"

text \<open>
  The scoring loop
  \<^verbatim>\<open>for idx, q in enumerate(quiz["questions"]):
       if idx < len(sub.answers) and sub.answers[idx] == q.get("answer"): correct += 1\<close>
  started with \<^verbatim>\<open>correct = 0\<close>.
\<close>

definition count_correct :: "int list \<Rightarrow> QuizQuestion list \<Rightarrow> nat" where
  "count_correct ans qs =
     fold (\<lambda>(idx, q) correct.
             if idx < length ans \<and> ans ! idx = answer q then correct + 1 else correct)
          (enumerate 0 qs) 0"

record submit_response =
  sr_status :: string
  sr_score :: nat
  sr_total :: nat

definition submit_quiz :: "db \<Rightarrow> string \<Rightarrow> QuizSubmission \<Rightarrow> entry \<Rightarrow> submit_response result" where
  "submit_quiz db now sub current_user =
     (case db of
        None \<Rightarrow> (Inl (HTTPException 500 ''Database not connected''), db)
      | Some st \<Rightarrow>
          (case map_of (quizzes st) (quiz_id sub) of
             None \<Rightarrow> (Inl (HTTPException 404 ''Quiz not found''), db)
           | Some quiz \<Rightarrow>
               (let correct = count_correct (answers sub) (questions quiz)
                in case map_of current_user ''username'' of
                     None \<Rightarrow> (Inl (Unhandled ''KeyError''), db)
                   | Some un \<Rightarrow>
                       (let r = \<lparr>qr_user = un, qr_quiz_id = quiz_id sub, qr_score = correct,
                                 qr_total = length (questions quiz), qr_submitted_at = now,
                                 qr_answers = answers sub\<rparr>
                        in (Inr \<lparr>sr_status = ''submitted'', sr_score = correct,
                                 sr_total = length (questions quiz)\<rparr>,
                            Some (st\<lparr>quiz_results :=
                              (quiz_results st)(un := quiz_results st un @ [r])\<rparr>))))))"

section \<open>Sample environments, stores and requests\<close>

definition sample_payload :: "string \<Rightarrow> (string \<rightharpoonup> string) option" where
  "sample_payload t =
     (if t = ''token-alice'' then Some [''sub'' \<mapsto> ''alice'']
      else if t = ''token-bob'' then Some [''sub'' \<mapsto> ''bob'']
      else None)"

text \<open>No API key configured.\<close>

definition env_no_key :: env where
  "env_no_key =
     \<lparr>OPENAI_API_KEY = None,
      chat_completion = (\<lambda>p. Inl ''no api key''),
      image_generate = (\<lambda>p. Inl ''no api key''),
      jwt_decode = sample_payload\<rparr>"

text \<open>A key is configured and every upstream call raises.\<close>

definition env_failing :: env where
  "env_failing =
     \<lparr>OPENAI_API_KEY = Some ''sk-test'',
      chat_completion = (\<lambda>p. Inl ''timeout''),
      image_generate = (\<lambda>p. Inl ''timeout''),
      jwt_decode = sample_payload\<rparr>"

definition sample_quiz :: Quiz where
  "sample_quiz =
     \<lparr>title = ''Capitals'',
      questions =
        [\<lparr>question = ''France?'', options = [''Paris'', ''Rome'', ''Oslo''], answer = 0\<rparr>,
         \<lparr>question = ''Italy?'', options = [''Paris'', ''Oslo'', ''Rome''], answer = 2\<rparr>,
         \<lparr>question = ''Norway?'', options = [''Paris'', ''Oslo'', ''Rome''], answer = 1\<rparr>],
      created_by = ''alice'', created_at = Some ''2024-01-01T00:00:00''\<rparr>"

text \<open>A quiz whose stored correct index lies outside its two options.\<close>

definition odd_quiz :: Quiz where
  "odd_quiz =
     \<lparr>title = ''Odd'',
      questions = [\<lparr>question = ''Pick'', options = [''a'', ''b''], answer = 5\<rparr>],
      created_by = ''alice'', created_at = Some ''2024-01-02T00:00:00''\<rparr>"

definition sample_history :: "entry list" where
  "sample_history =
     [ [(''user'', ''alice''), (''prompt'', ''a''), (''created_at'', ''2024-01-01T10:00:00'')],
      [(''user'', ''alice''), (''prompt'', ''b'')],
      [(''user'', ''alice''), (''prompt'', ''c''), (''created_at'', ''2024-03-01T10:00:00'')],
      [(''user'', ''alice''), (''prompt'', ''d''), (''created_at'', [])] ]"

definition sample_store :: store where
  "sample_store =
     \<lparr>users = [''alice'' \<mapsto> [(''username'', ''alice'')], ''bob'' \<mapsto> [(''username'', ''bob'')] ],
      history = (\<lambda>u. if u = ''alice'' then sample_history else []),
      quizzes = [(''q1'', sample_quiz), (''q2'', odd_quiz)],
      quiz_results = (\<lambda>u. [])\<rparr>"

definition sample_request :: "string option \<Rightarrow> gen_request" where
  "sample_request p =
     \<lparr>req_user = ''alice'', req_prompt = ''a cat'', req_provider = p, req_model = None\<rparr>"

section \<open>Auxiliary facts\<close>

lemmas endpoint_defs =
  generate_text_def generate_image_def generate_video_def generate_animation_def
  generate_text_advanced_def generate_image_advanced_def generate_video_advanced_def
  generate_cartoon_advanced_def generate_voiceover_advanced_def

lemmas adapter_defs =
  generate_text_openai_def generate_text_gemini_def generate_text_claude_def
  generate_text_manus_def generate_image_openai_def generate_image_gemini_def
  generate_image_claude_def generate_image_manus_def generate_video_ai_def
  generate_cartoon_video_def generate_voiceover_def

lemmas sample_defs =
  env_no_key_def env_failing_def sample_request_def sample_store_def sample_payload_def
  sample_history_def sample_quiz_def odd_quiz_def

lemma py_in_append: "py_in sub (xs @ sub @ ys)"
proof (induction xs)
  case Nil
  show ?case
  proof (cases "sub @ ys")
    case Nil
    then show ?thesis by simp
  next
    case (Cons a l)
    have "take (length sub) (sub @ ys) = sub" by simp
    then have "take (length sub) (a # l) = sub" by (simp only: Cons)
    then show ?thesis by (simp add: Cons)
  qed
next
  case (Cons x xs)
  then show ?case by simp
qed

lemma fold_count:
  "fold (\<lambda>x c. if P x then c + 1 else c) xs (n::nat) = n + length (filter P xs)"
  by (induction xs arbitrary: n) auto

lemma count_correct_card:
  "count_correct ans qs =
     card {i. i < length ans \<and> i < length qs \<and> ans ! i = answer (qs ! i)}"
proof -
  let ?P = "\<lambda>x. case x of (idx, q) \<Rightarrow> idx < length ans \<and> ans ! idx = answer q"
  have "count_correct ans qs = fold (\<lambda>x c. if ?P x then c + 1 else c) (enumerate 0 qs) 0"
    unfolding count_correct_def by (simp add: split_def)
  also have "\<dots> = length (filter ?P (enumerate 0 qs))"
    by (simp add: fold_count)
  also have "\<dots> = card {i. i < length (enumerate 0 qs) \<and> ?P (enumerate 0 qs ! i)}"
    by (rule length_filter_conv_card)
  also have "{i. i < length (enumerate 0 qs) \<and> ?P (enumerate 0 qs ! i)}
      = {i. i < length ans \<and> i < length qs \<and> ans ! i = answer (qs ! i)}"
    by (auto simp: nth_enumerate_eq)
  finally show ?thesis .
qed

lemma count_correct_take:
  "count_correct (take (length qs) ans) qs = count_correct ans qs"
proof -
  have "{i. i < length (take (length qs) ans) \<and> i < length qs
            \<and> take (length qs) ans ! i = answer (qs ! i)}
      = {i. i < length ans \<and> i < length qs \<and> ans ! i = answer (qs ! i)}"
    by auto
  then show ?thesis by (simp only: count_correct_card)
qed

lemma created_at_key_empty:
  "created_at_key e = [] \<longleftrightarrow> map_of e ''created_at'' \<in> {None, Some []}"
  by (auto simp: created_at_key_def split: option.splits)

lemma py_sorted_reverse_mset: "mset (py_sorted_reverse f xs) = mset xs"
  by (simp add: py_sorted_reverse_def)

lemma py_sorted_reverse_desc: "sorted_wrt (\<lambda>a b. f b \<le> f a) (py_sorted_reverse f xs)"
proof -
  have "sorted (map f (sort_key f (rev xs)))" by simp
  then have "sorted_wrt (\<lambda>a b. f a \<le> f b) (sort_key f (rev xs))"
    by (simp only: sorted_map)
  then show ?thesis
    by (simp add: py_sorted_reverse_def sorted_wrt_rev)
qed

text \<open>The listing of the sample history: newest first, the missing and the empty timestamp last.\<close>

lemma history_listing_sample:
  "get_history (Some sample_store) ''alice'' =
     Inr [ [(''user'', ''alice''), (''prompt'', ''c''), (''created_at'', ''2024-03-01T10:00:00'')],
          [(''user'', ''alice''), (''prompt'', ''a''), (''created_at'', ''2024-01-01T10:00:00'')],
          [(''user'', ''alice''), (''prompt'', ''b'')],
          [(''user'', ''alice''), (''prompt'', ''d''), (''created_at'', [])] ]"
  by (simp add: get_history_def py_sorted_reverse_def sample_defs created_at_key_def)

text \<open>
  The scenario of the specification: answers 0, 1 against the correct indices 0, 2, 1 give
  score 1 of 3.
\<close>

lemma submit_quiz_scenario:
  "fst (submit_quiz (Some sample_store) ''2024-06-01T09:00:00''
         \<lparr>quiz_id = ''q1'', answers = [0, 1]\<rparr> [(''username'', ''bob'')])
     = Inr \<lparr>sr_status = ''submitted'', sr_score = 1, sr_total = 3\<rparr>"
  by (simp add: submit_quiz_def count_correct_def sample_defs enumerate_eq_zip upt_rec)

text \<open>Closed forms of the endpoint bodies.\<close>

lemma generate_text_advanced_short_circuit:
  "key_unset (OPENAI_API_KEY env) \<and> provider = ''openai'' \<Longrightarrow>
   generate_text_advanced env db now user prompt provider model cu
     = (Inl (HTTPException 500 ''OpenAI API key not set''), db)"
  by (simp add: generate_text_advanced_def)

lemma generate_image_advanced_short_circuit:
  "key_unset (OPENAI_API_KEY env) \<and> provider = ''openai'' \<Longrightarrow>
   generate_image_advanced env db now user prompt provider model cu
     = (Inl (HTTPException 500 ''OpenAI API key not set''), db)"
  by (simp add: generate_image_advanced_def)

lemma generate_text_advanced_entry:
  "\<not> (key_unset (OPENAI_API_KEY env) \<and> provider = ''openai'') \<Longrightarrow>
   \<exists>out. generate_text_advanced env db now user prompt provider model cu
     = (Inr \<lparr>resp_status = ''ok'', resp_entry =
          [(''user'', user), (''prompt'', prompt), (''output'', out),
           (''type'', ''text_'' @ provider), (''provider'', provider), (''created_at'', now)]\<rparr>,
        add_history db user
          [(''user'', user), (''prompt'', prompt), (''output'', out),
           (''type'', ''text_'' @ provider), (''provider'', provider), (''created_at'', now)])"
  by (simp add: generate_text_advanced_def Let_def)

lemma generate_image_advanced_entry:
  "\<not> (key_unset (OPENAI_API_KEY env) \<and> provider = ''openai'') \<Longrightarrow>
   \<exists>url p. generate_image_advanced env db now user prompt provider model cu
     = (Inr \<lparr>resp_status = ''ok'', resp_entry =
          [(''user'', user), (''prompt'', p), (''storage_url'', url), (''media_type'', ''image''),
           (''type'', ''image_generation_'' @ provider), (''provider'', provider),
           (''created_at'', now)]\<rparr>,
        add_history db user
          [(''user'', user), (''prompt'', p), (''storage_url'', url), (''media_type'', ''image''),
           (''type'', ''image_generation_'' @ provider), (''provider'', provider),
           (''created_at'', now)])"
  by (simp add: generate_image_advanced_def Let_def split: prod.splits)

section \<open>Type labels of the advanced endpoints\<close>

text \<open>
  Claim C1, as amended. For every provider name, the advanced text endpoint returns an entry
  whose \<^verbatim>\<open>type\<close> is \<^verbatim>\<open>text_\<close> followed by the provider, and the advanced image, video,
  cartoon and voiceover endpoints return entries whose \<^verbatim>\<open>type\<close> is \<^verbatim>\<open>image_generation_\<close>,
  \<^verbatim>\<open>video_generation_\<close>, \<^verbatim>\<open>cartoon_generation_\<close> and \<^verbatim>\<open>voiceover_generation_\<close> followed
  by the provider. None of them raises, except that the text and image endpoints raise
  HTTP 500 when the provider is \<^verbatim>\<open>openai\<close> and the OpenAI key is unset.
\<close>

theorem advanced_type_label:
  "(\<not> (key_unset (OPENAI_API_KEY env) \<and> provider = ''openai'') \<longrightarrow>
      entry_field (generate_text_advanced env db now user prompt provider model cu) ''type''
        = Some (''text_'' @ provider)
      \<and> entry_field (generate_image_advanced env db now user prompt provider model cu) ''type''
        = Some (''image_generation_'' @ provider))
   \<and> (key_unset (OPENAI_API_KEY env) \<and> provider = ''openai'' \<longrightarrow>
      fst (generate_text_advanced env db now user prompt provider model cu)
        = Inl (HTTPException 500 ''OpenAI API key not set'')
      \<and> fst (generate_image_advanced env db now user prompt provider model cu)
        = Inl (HTTPException 500 ''OpenAI API key not set''))
   \<and> entry_field (generate_video_advanced db now user prompt provider model cu) ''type''
        = Some (''video_generation_'' @ provider)
   \<and> entry_field (generate_cartoon_advanced db now user prompt provider model cu) ''type''
        = Some (''cartoon_generation_'' @ provider)
   \<and> entry_field (generate_voiceover_advanced db now user prompt provider model cu) ''type''
        = Some (''voiceover_generation_'' @ provider)"
proof -
  have txt_part: "entry_field (generate_text_advanced env db now user prompt provider model cu) ''type''
        = Some (''text_'' @ provider)"
    if "\<not> (key_unset (OPENAI_API_KEY env) \<and> provider = ''openai'')"
    using generate_text_advanced_entry [OF that, of db now user prompt model cu]
    by (auto simp: entry_field_def)
  have image_part: "entry_field (generate_image_advanced env db now user prompt provider model cu) ''type''
        = Some (''image_generation_'' @ provider)"
    if "\<not> (key_unset (OPENAI_API_KEY env) \<and> provider = ''openai'')"
    using generate_image_advanced_entry [OF that, of db now user prompt model cu]
    by (auto simp: entry_field_def)
  have raise_part: "fst (generate_text_advanced env db now user prompt provider model cu)
        = Inl (HTTPException 500 ''OpenAI API key not set'')
      \<and> fst (generate_image_advanced env db now user prompt provider model cu)
        = Inl (HTTPException 500 ''OpenAI API key not set'')"
    if "key_unset (OPENAI_API_KEY env) \<and> provider = ''openai''"
    by (simp add: generate_text_advanced_short_circuit [OF that]
        generate_image_advanced_short_circuit [OF that])
  have video_part: "entry_field (generate_video_advanced db now user prompt provider model cu) ''type''
        = Some (''video_generation_'' @ provider)"
    by (simp add: entry_field_def generate_video_advanced_def Let_def)
  have cartoon_part: "entry_field (generate_cartoon_advanced db now user prompt provider model cu) ''type''
        = Some (''cartoon_generation_'' @ provider)"
    by (simp add: entry_field_def generate_cartoon_advanced_def Let_def)
  have voice_part: "entry_field (generate_voiceover_advanced db now user prompt provider model cu) ''type''
        = Some (''voiceover_generation_'' @ provider)"
    by (simp add: entry_field_def generate_voiceover_advanced_def Let_def)
  from txt_part image_part raise_part video_part cartoon_part voice_part show ?thesis by blast
qed

text \<open>The theorem at provider \<^verbatim>\<open>claude\<close> with a key, and at \<^verbatim>\<open>openai\<close> without one.\<close>

theorem advanced_type_label_witness:
  "entry_field (generate_text_advanced env_failing None ''2024-05-01T12:00:00'' ''alice'' ''a cat''
       ''claude'' None []) ''type'' = Some ''text_claude''
   \<and> entry_field (generate_image_advanced env_failing None ''2024-05-01T12:00:00'' ''alice'' ''a cat''
       ''claude'' None []) ''type'' = Some ''image_generation_claude''
   \<and> fst (generate_text_advanced env_no_key None ''2024-05-01T12:00:00'' ''alice'' ''a cat''
       ''openai'' None []) = Inl (HTTPException 500 ''OpenAI API key not set'')"
proof -
  have a: "\<not> (key_unset (OPENAI_API_KEY env_failing) \<and> ''claude'' = ''openai'')"
    by simp
  have b: "key_unset (OPENAI_API_KEY env_no_key) \<and> ''openai'' = ''openai''"
    by (simp add: env_no_key_def key_unset_def)
  from a b
    advanced_type_label [of env_failing "''claude''" None "''2024-05-01T12:00:00''" "''alice''"
      "''a cat''" None "[]"]
    advanced_type_label [of env_no_key "''openai''" None "''2024-05-01T12:00:00''" "''alice''"
      "''a cat''" None "[]"]
  show ?thesis by simp
qed

text \<open>
  Claim C1 as stated asks for the label \<^verbatim>\<open>image_gemini\<close>; the image endpoint writes
  \<^verbatim>\<open>image_generation_gemini\<close>.
\<close>

theorem image_type_label_counterexample:
  "entry_field (route GenerateImageAdvanced env_failing None ''2024-05-01T12:00:00''
       (sample_request (Some ''gemini'')) []) ''type'' = Some ''image_generation_gemini''
   \<and> ''image_generation_gemini'' \<noteq> ''image_gemini''"
  by (simp add: entry_field_def route_def generate_image_advanced_def generate_image_gemini_def
      env_failing_def sample_request_def body_provider_def key_unset_def add_history_def)

section \<open>Unknown providers\<close>

text \<open>
  Claim C2, as amended. For every provider name outside \<^verbatim>\<open>openai\<close>, \<^verbatim>\<open>gemini\<close>, \<^verbatim>\<open>claude\<close>
  and \<^verbatim>\<open>manus\<close>, no advanced endpoint raises. The text endpoint returns an entry whose
  \<^verbatim>\<open>output\<close> is \<^verbatim>\<open>[Unknown provider: p]\<close>, which contains the marker
  \<^verbatim>\<open>Unknown provider\<close>. The image, video, cartoon and voiceover endpoints return an entry
  whose \<^verbatim>\<open>storage_url\<close> is a placeholder URL that embeds the provider name and a
  \<^verbatim>\<open>Stub\<close> label.
\<close>

theorem unknown_provider_degraded:
  assumes "provider \<notin> {''openai'', ''gemini'', ''claude'', ''manus''}"
  shows "entry_field (generate_text_advanced env db now user prompt provider model cu) ''output''
        = Some (''[Unknown provider: '' @ provider @ '']'')
   \<and> py_in ''Unknown provider'' (''[Unknown provider: '' @ provider @ '']'')
   \<and> entry_field (generate_image_advanced env db now user prompt provider model cu) ''storage_url''
        = Some (''https://placehold.co/400x300?text='' @ provider @ ''+Image+Stub'')
   \<and> entry_field (generate_video_advanced db now user prompt provider model cu) ''storage_url''
        = Some (''https://placehold.co/640x360?text='' @ provider @ ''+Video+Stub'')
   \<and> entry_field (generate_cartoon_advanced db now user prompt provider model cu) ''storage_url''
        = Some (''https://placehold.co/400x300?text='' @ provider @ ''+Cartoon+Stub'')
   \<and> entry_field (generate_voiceover_advanced db now user prompt provider model cu) ''storage_url''
        = Some (''https://placehold.co/300x50?text='' @ provider @ ''+Voice+Stub'')"
proof -
  have txt_part: "entry_field (generate_text_advanced env db now user prompt provider model cu) ''output''
        = Some (''[Unknown provider: '' @ provider @ '']'')"
    using assms by (simp add: entry_field_def generate_text_advanced_def Let_def)
  have marker_part: "py_in ''Unknown provider'' (''[Unknown provider: '' @ provider @ '']'')"
    using py_in_append [of "''Unknown provider''" "''[''" "'': '' @ provider @ '']''"]
    by simp
  have image_part: "entry_field (generate_image_advanced env db now user prompt provider model cu)
        ''storage_url'' = Some (''https://placehold.co/400x300?text='' @ provider @ ''+Image+Stub'')"
    using assms by (simp add: entry_field_def generate_image_advanced_def Let_def)
  have video_part: "entry_field (generate_video_advanced db now user prompt provider model cu)
        ''storage_url'' = Some (''https://placehold.co/640x360?text='' @ provider @ ''+Video+Stub'')"
    using assms
    by (simp add: entry_field_def generate_video_advanced_def generate_video_ai_def Let_def)
  have cartoon_part: "entry_field (generate_cartoon_advanced db now user prompt provider model cu)
        ''storage_url'' = Some (''https://placehold.co/400x300?text='' @ provider @ ''+Cartoon+Stub'')"
    using assms
    by (simp add: entry_field_def generate_cartoon_advanced_def generate_cartoon_video_def Let_def)
  have voice_part: "entry_field (generate_voiceover_advanced db now user prompt provider model cu)
        ''storage_url'' = Some (''https://placehold.co/300x50?text='' @ provider @ ''+Voice+Stub'')"
    using assms
    by (simp add: entry_field_def generate_voiceover_advanced_def generate_voiceover_def Let_def)
  from txt_part marker_part image_part video_part cartoon_part voice_part show ?thesis by blast
qed

text \<open>The theorem at the provider name \<^verbatim>\<open>foo\<close>.\<close>

theorem unknown_provider_degraded_witness:
  "entry_field (generate_text_advanced env_no_key None ''2024-05-01T12:00:00'' ''alice'' ''a cat''
       ''foo'' None []) ''output'' = Some ''[Unknown provider: foo]''
   \<and> entry_field (generate_video_advanced None ''2024-05-01T12:00:00'' ''alice'' ''a cat''
       ''foo'' None []) ''storage_url'' = Some ''https://placehold.co/640x360?text=foo+Video+Stub''"
proof -
  have a: "''foo'' \<notin> {''openai'', ''gemini'', ''claude'', ''manus''}" by simp
  from unknown_provider_degraded [OF a, of env_no_key None "''2024-05-01T12:00:00''" "''alice''"
      "''a cat''" None "[]"]
  show ?thesis by simp
qed

text \<open>
  Claim C2 as stated asks for a visible unknown or error marker in the payload; for the
  unknown provider \<^verbatim>\<open>foo\<close> the image endpoint returns a stub URL without one.
\<close>

theorem unknown_image_provider_counterexample:
  "entry_field (route GenerateImageAdvanced env_failing None ''2024-05-01T12:00:00''
       (sample_request (Some ''foo'')) []) ''storage_url''
     = Some ''https://placehold.co/400x300?text=foo+Image+Stub''
   \<and> \<not> py_in ''unknown'' ''https://placehold.co/400x300?text=foo+Image+Stub''
   \<and> \<not> py_in ''Unknown'' ''https://placehold.co/400x300?text=foo+Image+Stub''
   \<and> \<not> py_in ''error'' ''https://placehold.co/400x300?text=foo+Image+Stub''
   \<and> \<not> py_in ''Error'' ''https://placehold.co/400x300?text=foo+Image+Stub''"
  by (simp add: entry_field_def route_def generate_image_advanced_def
      env_failing_def sample_request_def body_provider_def key_unset_def add_history_def)

section \<open>Facts about the routes\<close>

lemma route_raises_iff:
  "isl (fst (route ep env db now req cu)) \<longleftrightarrow>
     key_unset (OPENAI_API_KEY env)
     \<and> (ep \<in> {GenerateText, GenerateImage}
        \<or> ep \<in> {GenerateTextAdvanced, GenerateImageAdvanced} \<and> body_provider req = ''openai'')"
  by (cases ep) (simp_all add: route_def endpoint_defs Let_def split: prod.splits)

lemma route_raises_value:
  "isl (fst (route ep env db now req cu)) \<Longrightarrow>
   route ep env db now req cu = (Inl (HTTPException 500 ''OpenAI API key not set''), db)"
  by (cases ep) (simp_all add: route_def endpoint_defs Let_def split: prod.splits if_splits)

lemma route_persists:
  "snd (route ep env db now req cu) =
     (case fst (route ep env db now req cu) of
        Inl err \<Rightarrow> db
      | Inr r \<Rightarrow> add_history db (req_user req) (resp_entry r))"
  by (cases ep) (simp_all add: route_def endpoint_defs Let_def split: prod.splits)

lemma route_db_independent:
  "fst (route ep env db now req cu) = fst (route ep env db' now req cu)"
  by (cases ep) (simp_all add: route_def endpoint_defs Let_def split: prod.splits)

lemma route_current_user_independent:
  "route ep env db now req cu = route ep env db now req cu'"
  by (cases ep) (simp_all add: route_def endpoint_defs)

lemma route_user:
  "\<not> isl (fst (route ep env db now req cu)) \<Longrightarrow>
   entry_field (route ep env db now req cu) ''user'' = Some (req_user req)"
  by (cases ep)
    (simp_all add: entry_field_def route_def endpoint_defs Let_def split: prod.splits if_splits)

lemma route_media_type:
  "\<not> isl (fst (route ep env db now req cu)) \<Longrightarrow>
   entry_field (route ep env db now req cu) ''media_type'' =
     (if endpoint_kind ep = Text then None
      else if endpoint_kind ep = Voiceover then Some ''audio''
      else Some (kind_name (endpoint_kind ep)))"
  by (cases ep)
    (simp_all add: entry_field_def route_def endpoint_defs endpoint_kind_def kind_name_def Let_def
      split: prod.splits if_splits)

lemma route_storage_url:
  "\<not> isl (fst (route ep env db now req cu)) \<Longrightarrow>
   (entry_field (route ep env db now req cu) ''storage_url'' = None) = (endpoint_kind ep = Text)"
  by (cases ep)
    (simp_all add: entry_field_def route_def endpoint_defs endpoint_kind_def Let_def
      split: prod.splits if_splits)

section \<open>The missing-key short circuit\<close>

text \<open>
  Claim C3, as amended. A generation endpoint body raises exactly when the OpenAI key is
  unset or empty and the route is the plain text or plain image route, or the advanced text
  or advanced image route with provider \<^verbatim>\<open>openai\<close> (the default). The exception is then
  HTTP 500 with detail \<^verbatim>\<open>OpenAI API key not set\<close> and the store is left as it was. With
  the key unset, advanced text and image requests for other providers, and all video,
  animation, cartoon and voiceover requests, still return an entry.
\<close>

theorem missing_key_short_circuit:
  "(isl (fst (route ep env db now req cu)) \<longleftrightarrow>
      key_unset (OPENAI_API_KEY env)
      \<and> (ep \<in> {GenerateText, GenerateImage}
         \<or> ep \<in> {GenerateTextAdvanced, GenerateImageAdvanced} \<and> body_provider req = ''openai''))
   \<and> (isl (fst (route ep env db now req cu)) \<longrightarrow>
        route ep env db now req cu = (Inl (HTTPException 500 ''OpenAI API key not set''), db))"
  using route_raises_iff [of ep env db now req cu] route_raises_value [of ep env db now req cu]
  by blast

text \<open>The theorem without a key: plain text, advanced text by default, advanced video.\<close>

theorem missing_key_short_circuit_witness:
  "route GenerateText env_no_key None ''2024-05-01T12:00:00'' (sample_request None) []
     = (Inl (HTTPException 500 ''OpenAI API key not set''), None)
   \<and> route GenerateTextAdvanced env_no_key None ''2024-05-01T12:00:00'' (sample_request None) []
     = (Inl (HTTPException 500 ''OpenAI API key not set''), None)
   \<and> \<not> isl (fst (route GenerateVideoAdvanced env_no_key None ''2024-05-01T12:00:00''
                  (sample_request None) []))"
proof -
  have k: "key_unset (OPENAI_API_KEY env_no_key)"
    by (simp add: env_no_key_def key_unset_def)
  have p: "body_provider (sample_request None) = ''openai''"
    by (simp add: body_provider_def sample_request_def)
  from k p
    missing_key_short_circuit [of GenerateText env_no_key None "''2024-05-01T12:00:00''"
      "sample_request None" "[]"]
    missing_key_short_circuit [of GenerateTextAdvanced env_no_key None "''2024-05-01T12:00:00''"
      "sample_request None" "[]"]
    missing_key_short_circuit [of GenerateVideoAdvanced env_no_key None "''2024-05-01T12:00:00''"
      "sample_request None" "[]"]
  show ?thesis by simp
qed

text \<open>
  Claim C3 as stated has every text request fail without a key and has the failure confined
  to text: without a key the plain image route raises as well, and an advanced text request
  for \<^verbatim>\<open>gemini\<close> returns an entry.
\<close>

theorem missing_key_counterexample:
  "route GenerateImage env_no_key None ''2024-05-01T12:00:00'' (sample_request None) []
     = (Inl (HTTPException 500 ''OpenAI API key not set''), None)
   \<and> route GenerateTextAdvanced env_no_key None ''2024-05-01T12:00:00''
       (sample_request (Some ''gemini'')) []
     = (Inr \<lparr>resp_status = ''ok'', resp_entry =
          [(''user'', ''alice''), (''prompt'', ''a cat''), (''output'', ''[Gemini] a cat (stub)''),
           (''type'', ''text_gemini''), (''provider'', ''gemini''),
           (''created_at'', ''2024-05-01T12:00:00'')]\<rparr>, None)"
  by (simp add: route_def generate_image_def generate_text_advanced_def generate_text_gemini_def
      env_no_key_def sample_request_def body_provider_def key_unset_def add_history_def)

section \<open>Upstream failures\<close>

text \<open>
  Claim C4. When a key is configured and the upstream call raises an exception with message
  \<open>e\<close>, the text endpoints (plain, and advanced with provider \<^verbatim>\<open>openai\<close>) return and
  persist an entry whose \<^verbatim>\<open>output\<close> is the error-annotated string \<^verbatim>\<open>[OpenAI error: e]\<close>
  or \<^verbatim>\<open>[AI error: e]\<close>; the image endpoints return and persist an entry whose
  \<^verbatim>\<open>storage_url\<close> is a fixed placeholder URL and whose \<^verbatim>\<open>prompt\<close> is the request's
  prompt prefixed by the error annotation. The other adapters are total string functions
  and cannot raise.
\<close>

theorem upstream_failure_degraded:
  assumes "\<not> key_unset (OPENAI_API_KEY env)"
  shows "(chat_completion env prompt = Inl e \<longrightarrow>
        generate_text env db now user prompt
          = (Inr \<lparr>resp_status = ''ok'', resp_entry =
               [(''user'', user), (''prompt'', prompt), (''output'', ''[OpenAI error: '' @ e @ '']''),
                (''type'', ''text''), (''created_at'', now)]\<rparr>,
             add_history db user
               [(''user'', user), (''prompt'', prompt), (''output'', ''[OpenAI error: '' @ e @ '']''),
                (''type'', ''text''), (''created_at'', now)])
        \<and> generate_text_advanced env db now user prompt ''openai'' model cu
          = (Inr \<lparr>resp_status = ''ok'', resp_entry =
               [(''user'', user), (''prompt'', prompt), (''output'', ''[AI error: '' @ e @ '']''),
                (''type'', ''text_openai''), (''provider'', ''openai''), (''created_at'', now)]\<rparr>,
             add_history db user
               [(''user'', user), (''prompt'', prompt), (''output'', ''[AI error: '' @ e @ '']''),
                (''type'', ''text_openai''), (''provider'', ''openai''), (''created_at'', now)]))
   \<and> (image_generate env prompt = Inl e \<longrightarrow>
        generate_image env db now user prompt
          = (Inr \<lparr>resp_status = ''ok'', resp_entry =
               [(''user'', user), (''prompt'', ''[OpenAI error: '' @ e @ ''] '' @ prompt),
                (''storage_url'', ''https://placehold.co/400x300?text=OpenAI+Error''),
                (''media_type'', ''image''), (''type'', ''image_generation''),
                (''created_at'', now)]\<rparr>,
             add_history db user
               [(''user'', user), (''prompt'', ''[OpenAI error: '' @ e @ ''] '' @ prompt),
                (''storage_url'', ''https://placehold.co/400x300?text=OpenAI+Error''),
                (''media_type'', ''image''), (''type'', ''image_generation''),
                (''created_at'', now)])
        \<and> generate_image_advanced env db now user prompt ''openai'' model cu
          = (Inr \<lparr>resp_status = ''ok'', resp_entry =
               [(''user'', user), (''prompt'', ''[AI error: '' @ e @ ''] '' @ prompt),
                (''storage_url'', ''https://placehold.co/400x300?text=AI+Error''),
                (''media_type'', ''image''), (''type'', ''image_generation_openai''),
                (''provider'', ''openai''), (''created_at'', now)]\<rparr>,
             add_history db user
               [(''user'', user), (''prompt'', ''[AI error: '' @ e @ ''] '' @ prompt),
                (''storage_url'', ''https://placehold.co/400x300?text=AI+Error''),
                (''media_type'', ''image''), (''type'', ''image_generation_openai''),
                (''provider'', ''openai''), (''created_at'', now)]))"
proof (intro conjI impI)
  assume "chat_completion env prompt = Inl e"
  then show "generate_text env db now user prompt
          = (Inr \<lparr>resp_status = ''ok'', resp_entry =
               [(''user'', user), (''prompt'', prompt), (''output'', ''[OpenAI error: '' @ e @ '']''),
                (''type'', ''text''), (''created_at'', now)]\<rparr>,
             add_history db user
               [(''user'', user), (''prompt'', prompt), (''output'', ''[OpenAI error: '' @ e @ '']''),
                (''type'', ''text''), (''created_at'', now)])"
    using assms by (simp add: generate_text_def Let_def)
next
  assume "chat_completion env prompt = Inl e"
  then show "generate_text_advanced env db now user prompt ''openai'' model cu
          = (Inr \<lparr>resp_status = ''ok'', resp_entry =
               [(''user'', user), (''prompt'', prompt), (''output'', ''[AI error: '' @ e @ '']''),
                (''type'', ''text_openai''), (''provider'', ''openai''), (''created_at'', now)]\<rparr>,
             add_history db user
               [(''user'', user), (''prompt'', prompt), (''output'', ''[AI error: '' @ e @ '']''),
                (''type'', ''text_openai''), (''provider'', ''openai''), (''created_at'', now)])"
    using assms by (simp add: generate_text_advanced_def generate_text_openai_def Let_def)
next
  assume "image_generate env prompt = Inl e"
  then show "generate_image env db now user prompt
          = (Inr \<lparr>resp_status = ''ok'', resp_entry =
               [(''user'', user), (''prompt'', ''[OpenAI error: '' @ e @ ''] '' @ prompt),
                (''storage_url'', ''https://placehold.co/400x300?text=OpenAI+Error''),
                (''media_type'', ''image''), (''type'', ''image_generation''),
                (''created_at'', now)]\<rparr>,
             add_history db user
               [(''user'', user), (''prompt'', ''[OpenAI error: '' @ e @ ''] '' @ prompt),
                (''storage_url'', ''https://placehold.co/400x300?text=OpenAI+Error''),
                (''media_type'', ''image''), (''type'', ''image_generation''),
                (''created_at'', now)])"
    using assms by (simp add: generate_image_def Let_def)
next
  assume "image_generate env prompt = Inl e"
  then show "generate_image_advanced env db now user prompt ''openai'' model cu
          = (Inr \<lparr>resp_status = ''ok'', resp_entry =
               [(''user'', user), (''prompt'', ''[AI error: '' @ e @ ''] '' @ prompt),
                (''storage_url'', ''https://placehold.co/400x300?text=AI+Error''),
                (''media_type'', ''image''), (''type'', ''image_generation_openai''),
                (''provider'', ''openai''), (''created_at'', now)]\<rparr>,
             add_history db user
               [(''user'', user), (''prompt'', ''[AI error: '' @ e @ ''] '' @ prompt),
                (''storage_url'', ''https://placehold.co/400x300?text=AI+Error''),
                (''media_type'', ''image''), (''type'', ''image_generation_openai''),
                (''provider'', ''openai''), (''created_at'', now)])"
    using assms by (simp add: generate_image_advanced_def generate_image_openai_def Let_def)
qed

text \<open>The theorem in an environment whose upstream calls raise \<^verbatim>\<open>timeout\<close>.\<close>

theorem upstream_failure_degraded_witness:
  "fst (generate_text_advanced env_failing None ''2024-05-01T12:00:00'' ''alice'' ''a cat''
         ''openai'' None [])
     = Inr \<lparr>resp_status = ''ok'', resp_entry =
         [(''user'', ''alice''), (''prompt'', ''a cat''), (''output'', ''[AI error: timeout]''),
          (''type'', ''text_openai''), (''provider'', ''openai''),
          (''created_at'', ''2024-05-01T12:00:00'')]\<rparr>
   \<and> fst (generate_image_advanced env_failing None ''2024-05-01T12:00:00'' ''alice'' ''a cat''
         ''openai'' None [])
     = Inr \<lparr>resp_status = ''ok'', resp_entry =
         [(''user'', ''alice''), (''prompt'', ''[AI error: timeout] a cat''),
          (''storage_url'', ''https://placehold.co/400x300?text=AI+Error''),
          (''media_type'', ''image''), (''type'', ''image_generation_openai''),
          (''provider'', ''openai''), (''created_at'', ''2024-05-01T12:00:00'')]\<rparr>"
proof -
  have k: "\<not> key_unset (OPENAI_API_KEY env_failing)"
    by (simp add: env_failing_def key_unset_def)
  have c: "chat_completion env_failing ''a cat'' = Inl ''timeout''"
    by (simp add: env_failing_def)
  have i: "image_generate env_failing ''a cat'' = Inl ''timeout''"
    by (simp add: env_failing_def)
  from c i
    upstream_failure_degraded [OF k, of "''a cat''" "''timeout''" None "''2024-05-01T12:00:00''"
      "''alice''" None "[]"]
  show ?thesis by simp
qed

section \<open>An unconfigured store\<close>

lemma get_current_user_no_store:
  "get_current_user env None token = Inl (HTTPException 401 ''Could not validate credentials'')"
  by (simp add: get_current_user_def get_user_def credentials_exception_def
      split: option.splits)

lemma handle_persists:
  "fst (handle ep env db now token req) = Inr r \<Longrightarrow>
   snd (handle ep env db now token req) = add_history db (req_user req) (resp_entry r)"
proof (cases "advanced ep")
  case False
  assume "fst (handle ep env db now token req) = Inr r"
  with False show ?thesis
    by (simp add: handle_def route_persists [of ep env db now req "[]"])
next
  case True
  assume r: "fst (handle ep env db now token req) = Inr r"
  show ?thesis
  proof (cases "get_current_user env db token")
    case (Inl err)
    with True r show ?thesis by (simp add: handle_def)
  next
    case (Inr cu)
    with True r show ?thesis
      by (simp add: handle_def route_persists [of ep env db now req cu])
  qed
qed

text \<open>
  Claim C5, as amended. When the store is unconfigured (\<open>db\<close> is \<open>None\<close>), the history
  listing fails with HTTP 500 \<^verbatim>\<open>Database not connected\<close>. \<^verbatim>\<open>/save-content\<close> and the
  advanced generation routes fail with HTTP 401 \<^verbatim>\<open>Could not validate credentials\<close>,
  whatever the token: the authentication dependency finds no user and their bodies never
  run. The plain generation routes do not fail on account of the store: they answer
  exactly as they would with a configured store and persist nothing. With a configured
  store, a generation request that returns an entry appends that entry to the history of
  the user named in the request body.
\<close>

theorem store_unconfigured:
  "get_history None user = Inl (HTTPException 500 ''Database not connected'')
   \<and> handle_save_content env None now token data
       = (Inl (HTTPException 401 ''Could not validate credentials''), None)
   \<and> (advanced ep \<longrightarrow>
        handle ep env None now token req
          = (Inl (HTTPException 401 ''Could not validate credentials''), None))
   \<and> (\<not> advanced ep \<longrightarrow>
        fst (handle ep env None now token req) = fst (handle ep env (Some st) now token req)
        \<and> fst (handle ep env None now token req)
            \<noteq> Inl (HTTPException 500 ''Database not connected'')
        \<and> snd (handle ep env None now token req) = None)
   \<and> (\<forall>r. fst (handle ep env (Some st) now token req) = Inr r \<longrightarrow>
         snd (handle ep env (Some st) now token req)
           = Some (st\<lparr>history :=
               (history st)(req_user req := history st (req_user req) @ [resp_entry r])\<rparr>))"
proof -
  have listing: "get_history None user = Inl (HTTPException 500 ''Database not connected'')"
    by (simp add: get_history_def)
  have saving: "handle_save_content env None now token data
       = (Inl (HTTPException 401 ''Could not validate credentials''), None)"
    by (simp add: handle_save_content_def get_current_user_no_store)
  have adv: "handle ep env None now token req
          = (Inl (HTTPException 401 ''Could not validate credentials''), None)"
    if "advanced ep"
    using that by (simp add: handle_def get_current_user_no_store)
  have same: "fst (handle ep env None now token req)
      = fst (handle ep env (Some st) now token req)"
    if "\<not> advanced ep"
    using that route_db_independent [of ep env None now req "[]" "Some st"]
    by (simp add: handle_def)
  have other: "fst (handle ep env None now token req)
      \<noteq> Inl (HTTPException 500 ''Database not connected'')"
    if "\<not> advanced ep"
  proof (cases "isl (fst (route ep env None now req []))")
    case True
    with that show ?thesis by (simp add: handle_def route_raises_value)
  next
    case False
    with that show ?thesis by (auto simp: handle_def isl_def)
  qed
  have dropped: "snd (handle ep env None now token req) = None"
    if "\<not> advanced ep"
    using that
    by (simp add: handle_def route_persists [of ep env None now req "[]"] add_history_def
        split: sum.splits)
  have kept: "\<forall>r. fst (handle ep env (Some st) now token req) = Inr r \<longrightarrow>
         snd (handle ep env (Some st) now token req)
           = Some (st\<lparr>history :=
               (history st)(req_user req := history st (req_user req) @ [resp_entry r])\<rparr>)"
    by (simp add: handle_persists add_history_def)
  from listing saving adv same other dropped kept show ?thesis by blast
qed

text \<open>
  The theorem without a store for the plain video route and for the advanced video route
  with the token of alice, and with the sample store for the advanced video route.
\<close>

theorem store_unconfigured_witness:
  "get_history None ''alice'' = Inl (HTTPException 500 ''Database not connected'')
   \<and> handle GenerateVideoAdvanced env_no_key None ''2024-05-01T12:00:00'' ''token-alice''
         (sample_request None)
       = (Inl (HTTPException 401 ''Could not validate credentials''), None)
   \<and> snd (handle GenerateVideo env_no_key None ''2024-05-01T12:00:00'' ''token-alice''
         (sample_request None)) = None
   \<and> fst (handle GenerateVideo env_no_key None ''2024-05-01T12:00:00'' ''token-alice''
         (sample_request None))
       = fst (handle GenerateVideo env_no_key (Some sample_store) ''2024-05-01T12:00:00''
               ''token-alice'' (sample_request None))
   \<and> snd (handle GenerateVideoAdvanced env_no_key (Some sample_store) ''2024-05-01T12:00:00''
           ''token-alice'' (sample_request None))
       = Some (sample_store\<lparr>history := (history sample_store)(''alice'' := sample_history @
           [ [(''user'', ''alice''), (''prompt'', ''a cat''),
             (''storage_url'', ''https://www.w3schools.com/html/mov_bbb.mp4''),
             (''media_type'', ''video''), (''type'', ''video_generation_openai''),
             (''provider'', ''openai''), (''created_at'', ''2024-05-01T12:00:00'')] ])\<rparr>)"
proof -
  have a: "advanced GenerateVideoAdvanced" by (simp add: advanced_def)
  have p: "\<not> advanced GenerateVideo" by (simp add: advanced_def)
  have t: "get_current_user env_no_key (Some sample_store) ''token-alice''
      = Inr [(''username'', ''alice'')]"
    by (simp add: get_current_user_def get_user_def env_no_key_def sample_payload_def
        sample_store_def)
  have r: "fst (handle GenerateVideoAdvanced env_no_key (Some sample_store)
           ''2024-05-01T12:00:00'' ''token-alice'' (sample_request None))
      = Inr \<lparr>resp_status = ''ok'', resp_entry =
           [(''user'', ''alice''), (''prompt'', ''a cat''),
             (''storage_url'', ''https://www.w3schools.com/html/mov_bbb.mp4''),
             (''media_type'', ''video''), (''type'', ''video_generation_openai''),
             (''provider'', ''openai''), (''created_at'', ''2024-05-01T12:00:00'')]\<rparr>"
    by (simp add: handle_def a t route_def generate_video_advanced_def generate_video_ai_def
        sample_request_def body_provider_def Let_def)
  have h: "history sample_store (req_user (sample_request None)) = sample_history"
    by (simp add: sample_store_def sample_request_def)
  have u: "req_user (sample_request None) = ''alice''"
    by (simp add: sample_request_def)
  from store_unconfigured [where user = "''alice''" and now = "''2024-05-01T12:00:00''"
      and ep = GenerateVideoAdvanced and env = env_no_key and req = "sample_request None"
      and token = "''token-alice''" and st = sample_store]
    store_unconfigured [where user = "''alice''" and now = "''2024-05-01T12:00:00''"
      and ep = GenerateVideo and env = env_no_key and req = "sample_request None"
      and token = "''token-alice''" and st = sample_store]
    a p r h u
  show ?thesis by simp
qed

text \<open>
  Claim C5 as stated has no operation complete while dropping the entry: with \<open>db\<close> unset
  a request to \<^verbatim>\<open>/generate-video\<close>, which needs no token, answers \<^verbatim>\<open>ok\<close> with its entry
  and the store stays unset.
\<close>

theorem unconfigured_store_counterexample:
  "handle GenerateVideo env_no_key None ''2024-05-01T12:00:00'' [] (sample_request None)
     = (Inr \<lparr>resp_status = ''ok'', resp_entry =
          [(''user'', ''alice''), (''prompt'', ''a cat''),
           (''storage_url'', ''https://www.w3schools.com/html/mov_bbb.mp4''),
           (''media_type'', ''video''), (''type'', ''video_generation''),
           (''created_at'', ''2024-05-01T12:00:00'')]\<rparr>, None)"
  by (simp add: handle_def advanced_def route_def generate_video_def
      sample_request_def add_history_def Let_def)

section \<open>Media type\<close>

text \<open>
  Claim C6. For every generation route, the entry that is returned and persisted has a
  \<^verbatim>\<open>media_type\<close> exactly when it has a \<^verbatim>\<open>storage_url\<close>; entries of the text kind have
  neither; for the other kinds \<^verbatim>\<open>media_type\<close> is the name of the kind, except that the
  voiceover kind has \<^verbatim>\<open>audio\<close>. The persisted entry is the returned one. An entry
  saved by \<^verbatim>\<open>/save-content\<close> has neither key.
\<close>

theorem media_type_mirrors_kind:
  "(entry_field (route ep env db now req cu) ''media_type'' = None
      \<longleftrightarrow> entry_field (route ep env db now req cu) ''storage_url'' = None)
   \<and> (\<not> isl (fst (route ep env db now req cu)) \<longrightarrow>
        entry_field (route ep env db now req cu) ''media_type'' =
          (if endpoint_kind ep = Text then None
           else if endpoint_kind ep = Voiceover then Some ''audio''
           else Some (kind_name (endpoint_kind ep))))
   \<and> snd (route ep env db now req cu) =
        (case fst (route ep env db now req cu) of
           Inl err \<Rightarrow> db
         | Inr r \<Rightarrow> add_history db (req_user req) (resp_entry r))
   \<and> (\<forall>r. fst (save_content db now data cu) = Inr r \<longrightarrow>
         map_of (save_entry r) ''media_type'' = None
         \<and> map_of (save_entry r) ''storage_url'' = None)"
proof -
  have saved: "\<forall>r. fst (save_content db now data cu) = Inr r \<longrightarrow>
         map_of (save_entry r) ''media_type'' = None
         \<and> map_of (save_entry r) ''storage_url'' = None"
    by (auto simp: save_content_def Let_def split: option.splits)
  have both: "entry_field (route ep env db now req cu) ''media_type'' = None
      \<longleftrightarrow> entry_field (route ep env db now req cu) ''storage_url'' = None"
  proof (cases "isl (fst (route ep env db now req cu))")
    case True
    then show ?thesis by (auto simp: entry_field_def isl_def)
  next
    case False
    from route_media_type [OF False] route_storage_url [OF False]
    show ?thesis by (auto split: if_splits)
  qed
  have mirror: "\<not> isl (fst (route ep env db now req cu)) \<longrightarrow>
        entry_field (route ep env db now req cu) ''media_type'' =
          (if endpoint_kind ep = Text then None
           else if endpoint_kind ep = Voiceover then Some ''audio''
           else Some (kind_name (endpoint_kind ep)))"
    using route_media_type by blast
  from both mirror route_persists [of ep env db now req cu] saved show ?thesis by blast
qed

text \<open>The theorem for a voiceover and a cartoon request.\<close>

theorem media_type_mirrors_kind_witness:
  "entry_field (route GenerateVoiceoverAdvanced env_no_key None ''2024-05-01T12:00:00''
       (sample_request None) []) ''media_type'' = Some ''audio''
   \<and> entry_field (route GenerateCartoonAdvanced env_no_key None ''2024-05-01T12:00:00''
       (sample_request None) []) ''media_type'' = Some ''animation''
   \<and> entry_field (route GenerateTextAdvanced env_failing None ''2024-05-01T12:00:00''
       (sample_request None) []) ''storage_url'' = None"
proof -
  have v: "\<not> isl (fst (route GenerateVoiceoverAdvanced env_no_key None ''2024-05-01T12:00:00''
       (sample_request None) []))"
    by (simp add: route_def generate_voiceover_advanced_def Let_def)
  have c: "\<not> isl (fst (route GenerateCartoonAdvanced env_no_key None ''2024-05-01T12:00:00''
       (sample_request None) []))"
    by (simp add: route_def generate_cartoon_advanced_def Let_def)
  have t: "\<not> isl (fst (route GenerateTextAdvanced env_failing None ''2024-05-01T12:00:00''
       (sample_request None) []))"
    by (simp add: route_def generate_text_advanced_def Let_def env_failing_def key_unset_def)
  from v c t
    media_type_mirrors_kind [where ep = GenerateVoiceoverAdvanced and env = env_no_key
      and db = None and now = "''2024-05-01T12:00:00''" and req = "sample_request None"
      and cu = "[]"]
    media_type_mirrors_kind [where ep = GenerateCartoonAdvanced and env = env_no_key
      and db = None and now = "''2024-05-01T12:00:00''" and req = "sample_request None"
      and cu = "[]"]
    media_type_mirrors_kind [where ep = GenerateTextAdvanced and env = env_failing
      and db = None and now = "''2024-05-01T12:00:00''" and req = "sample_request None"
      and cu = "[]"]
  show ?thesis by (auto simp: endpoint_kind_def kind_name_def)
qed

section \<open>History listing\<close>

text \<open>
  Claim C7. With a configured store, the history listing of a user returns a list that has
  exactly the user's stored entries (as a multiset: none dropped, none duplicated), in
  descending order of the key \<^verbatim>\<open>created_at\<close>. An entry whose \<^verbatim>\<open>created_at\<close> is missing
  or empty has the least key, and every entry listed after such an entry also has a missing
  or empty \<^verbatim>\<open>created_at\<close>: they come last.
\<close>

theorem history_listing_sorted_desc:
  "\<exists>ys. get_history (Some st) user = Inr ys
      \<and> mset ys = mset (history st user)
      \<and> sorted_wrt (\<lambda>a b. created_at_key b \<le> created_at_key a) ys
      \<and> (\<forall>e. map_of e ''created_at'' \<in> {None, Some []} \<longrightarrow>
             (\<forall>f. created_at_key e \<le> created_at_key f))
      \<and> (\<forall>i j. i < j \<and> j < length ys \<and> map_of (ys ! i) ''created_at'' \<in> {None, Some []}
             \<longrightarrow> map_of (ys ! j) ''created_at'' \<in> {None, Some []})"
proof -
  let ?ys = "py_sorted_reverse created_at_key (history st user)"
  have listing: "get_history (Some st) user = Inr ?ys"
    by (simp add: get_history_def)
  have perm: "mset ?ys = mset (history st user)"
    by (rule py_sorted_reverse_mset)
  have desc: "sorted_wrt (\<lambda>a b. created_at_key b \<le> created_at_key a) ?ys"
    by (rule py_sorted_reverse_desc)
  have least: "\<forall>e. map_of e ''created_at'' \<in> {None, Some []} \<longrightarrow>
      (\<forall>f. created_at_key e \<le> created_at_key f)"
    by (auto simp: created_at_key_def)
  have last: "\<forall>i j. i < j \<and> j < length ?ys \<and> map_of (?ys ! i) ''created_at'' \<in> {None, Some []}
      \<longrightarrow> map_of (?ys ! j) ''created_at'' \<in> {None, Some []}"
  proof (intro allI impI)
    fix i j
    assume h: "i < j \<and> j < length ?ys \<and> map_of (?ys ! i) ''created_at'' \<in> {None, Some []}"
    then have "created_at_key (?ys ! j) \<le> created_at_key (?ys ! i)"
      using desc by (simp add: sorted_wrt_iff_nth_less)
    moreover have "created_at_key (?ys ! i) = []"
      using h by (simp only: created_at_key_empty)
    ultimately have "created_at_key (?ys ! j) = []" by simp
    then show "map_of (?ys ! j) ''created_at'' \<in> {None, Some []}"
      by (simp only: created_at_key_empty)
  qed
  from listing perm desc least last show ?thesis by blast
qed

text \<open>The theorem on the sample store, whose history has a missing and an empty timestamp.\<close>

theorem history_listing_sorted_desc_witness:
  "get_history (Some sample_store) ''alice'' =
     Inr [ [(''user'', ''alice''), (''prompt'', ''c''), (''created_at'', ''2024-03-01T10:00:00'')],
          [(''user'', ''alice''), (''prompt'', ''a''), (''created_at'', ''2024-01-01T10:00:00'')],
          [(''user'', ''alice''), (''prompt'', ''b'')],
          [(''user'', ''alice''), (''prompt'', ''d''), (''created_at'', [])] ]
   \<and> mset [ [(''user'', ''alice''), (''prompt'', ''c''), (''created_at'', ''2024-03-01T10:00:00'')],
          [(''user'', ''alice''), (''prompt'', ''a''), (''created_at'', ''2024-01-01T10:00:00'')],
          [(''user'', ''alice''), (''prompt'', ''b'')],
          [(''user'', ''alice''), (''prompt'', ''d''), (''created_at'', [])] ]
       = mset sample_history
   \<and> sorted_wrt (\<lambda>a b. created_at_key b \<le> created_at_key a)
         [ [(''user'', ''alice''), (''prompt'', ''c''), (''created_at'', ''2024-03-01T10:00:00'')],
          [(''user'', ''alice''), (''prompt'', ''a''), (''created_at'', ''2024-01-01T10:00:00'')],
          [(''user'', ''alice''), (''prompt'', ''b'')],
          [(''user'', ''alice''), (''prompt'', ''d''), (''created_at'', [])] ]
   \<and> map_of ([(''user'', ''alice''), (''prompt'', ''d''), (''created_at'', [])]) ''created_at''
       \<in> {None, Some []}"
proof -
  let ?L = "[ [(''user'', ''alice''), (''prompt'', ''c''), (''created_at'', ''2024-03-01T10:00:00'')],
          [(''user'', ''alice''), (''prompt'', ''a''), (''created_at'', ''2024-01-01T10:00:00'')],
          [(''user'', ''alice''), (''prompt'', ''b'')],
          [(''user'', ''alice''), (''prompt'', ''d''), (''created_at'', [])] ]"
  have h: "history sample_store ''alice'' = sample_history"
    by (simp add: sample_store_def)
  from history_listing_sorted_desc [of sample_store "''alice''"] obtain ys where
    ys: "get_history (Some sample_store) ''alice'' = Inr ys"
      "mset ys = mset (history sample_store ''alice'')"
      "sorted_wrt (\<lambda>a b. created_at_key b \<le> created_at_key a) ys"
      "\<forall>i j. i < j \<and> j < length ys \<and> map_of (ys ! i) ''created_at'' \<in> {None, Some []}
             \<longrightarrow> map_of (ys ! j) ''created_at'' \<in> {None, Some []}"
    by blast
  have eq: "ys = ?L" using ys(1) by (simp add: history_listing_sample)
  have third: "(2::nat) < 3 \<and> 3 < length ?L \<and> map_of (?L ! 2) ''created_at'' \<in> {None, Some []}"
    by simp
  have fourth: "map_of (?L ! 3) ''created_at'' \<in> {None, Some []}"
    using ys(4) [rule_format, of 2 3] third unfolding eq by blast
  from ys(1,2,3) fourth h show ?thesis unfolding eq by simp
qed

section \<open>Quiz scoring\<close>

text \<open>
  Claim C8, as amended. For a stored quiz with \<open>N\<close> questions and a submission with \<open>M\<close>
  answers by a user whose record has a \<^verbatim>\<open>username\<close>, the endpoint returns without an
  error; the score is the number of positions \<open>i < M\<close>, \<open>i < N\<close> at which the answer
  equals the question's correct index; the total is \<open>N\<close>; answers beyond \<open>N\<close> do not
  change the score; and a selected index outside the range of the question's options is
  not counted whenever the question's correct index is itself within that range.
\<close>

theorem submit_quiz_score:
  assumes "map_of (quizzes st) (quiz_id sub) = Some quiz"
    and "map_of cu ''username'' = Some un"
  shows "\<exists>r. fst (submit_quiz (Some st) now sub cu) = Inr r
      \<and> sr_score r = card {i. i < length (answers sub) \<and> i < length (questions quiz)
                               \<and> answers sub ! i = answer (questions quiz ! i)}
      \<and> sr_total r = length (questions quiz)
      \<and> sr_score r = count_correct (take (length (questions quiz)) (answers sub)) (questions quiz)
      \<and> (\<forall>i. i < length (answers sub) \<and> i < length (questions quiz)
             \<and> 0 \<le> answer (questions quiz ! i)
             \<and> answer (questions quiz ! i) < int (length (options (questions quiz ! i)))
             \<and> \<not> (0 \<le> answers sub ! i
                    \<and> answers sub ! i < int (length (options (questions quiz ! i))))
             \<longrightarrow> i \<notin> {i. i < length (answers sub) \<and> i < length (questions quiz)
                           \<and> answers sub ! i = answer (questions quiz ! i)})"
proof -
  let ?r = "\<lparr>sr_status = ''submitted'',
             sr_score = count_correct (answers sub) (questions quiz),
             sr_total = length (questions quiz)\<rparr>"
  have res: "fst (submit_quiz (Some st) now sub cu) = Inr ?r"
    using assms by (simp add: submit_quiz_def Let_def)
  have score: "sr_score ?r = card {i. i < length (answers sub) \<and> i < length (questions quiz)
                               \<and> answers sub ! i = answer (questions quiz ! i)}"
    by (simp add: count_correct_card)
  have tot: "sr_total ?r = length (questions quiz)" by simp
  have trunc: "sr_score ?r
      = count_correct (take (length (questions quiz)) (answers sub)) (questions quiz)"
    by (simp add: count_correct_take)
  have range: "\<forall>i. i < length (answers sub) \<and> i < length (questions quiz)
             \<and> 0 \<le> answer (questions quiz ! i)
             \<and> answer (questions quiz ! i) < int (length (options (questions quiz ! i)))
             \<and> \<not> (0 \<le> answers sub ! i
                    \<and> answers sub ! i < int (length (options (questions quiz ! i))))
             \<longrightarrow> i \<notin> {i. i < length (answers sub) \<and> i < length (questions quiz)
                           \<and> answers sub ! i = answer (questions quiz ! i)}"
    by auto
  from res score tot trunc range show ?thesis by blast
qed

text \<open>
  The theorem on the sample quiz (correct indices 0, 2, 1, three options each) with the
  answers 0, 7, 1, 2: the out-of-range 7 is not counted and the fourth answer is ignored.
\<close>

theorem submit_quiz_score_witness:
  "\<exists>r. fst (submit_quiz (Some sample_store) ''2024-06-01T09:00:00''
              \<lparr>quiz_id = ''q1'', answers = [0, 7, 1, 2]\<rparr> [(''username'', ''bob'')]) = Inr r
      \<and> sr_score r = 2 \<and> sr_total r = 3
      \<and> 1 \<notin> {i. i < length [0, 7, 1, 2 :: int] \<and> i < length (questions sample_quiz)
                    \<and> [0, 7, 1, 2] ! i = answer (questions sample_quiz ! i)}"
proof -
  have q: "map_of (quizzes sample_store) (quiz_id \<lparr>quiz_id = ''q1'', answers = [0, 7, 1, 2]\<rparr>)
      = Some sample_quiz"
    by (simp add: sample_store_def)
  have u: "map_of [(''username'', ''bob'')] ''username'' = Some ''bob''" by simp
  have n: "length (questions sample_quiz) = 3" by (simp add: sample_quiz_def)
  have c: "count_correct (take 3 [0, 7, 1, 2]) (questions sample_quiz) = 2"
    by (simp add: count_correct_def sample_quiz_def enumerate_eq_zip upt_rec)
  have o: "1 < length [0, 7, 1, 2 :: int] \<and> 1 < length (questions sample_quiz)
      \<and> 0 \<le> answer (questions sample_quiz ! 1)
      \<and> answer (questions sample_quiz ! 1) < int (length (options (questions sample_quiz ! 1)))
      \<and> \<not> (0 \<le> [0, 7, 1, 2 :: int] ! 1
             \<and> [0, 7, 1, 2] ! 1 < int (length (options (questions sample_quiz ! 1))))"
    by (simp add: sample_quiz_def)
  from submit_quiz_score [OF q u, of "''2024-06-01T09:00:00''"] obtain r where
    r: "fst (submit_quiz (Some sample_store) ''2024-06-01T09:00:00''
              \<lparr>quiz_id = ''q1'', answers = [0, 7, 1, 2]\<rparr> [(''username'', ''bob'')]) = Inr r"
      "sr_total r = length (questions sample_quiz)"
      "sr_score r = count_correct (take (length (questions sample_quiz))
         (answers \<lparr>quiz_id = ''q1'', answers = [0, 7, 1, 2]\<rparr>)) (questions sample_quiz)"
      "\<forall>i. i < length (answers \<lparr>quiz_id = ''q1'', answers = [0, 7, 1, 2]\<rparr>)
             \<and> i < length (questions sample_quiz)
             \<and> 0 \<le> answer (questions sample_quiz ! i)
             \<and> answer (questions sample_quiz ! i) < int (length (options (questions sample_quiz ! i)))
             \<and> \<not> (0 \<le> answers \<lparr>quiz_id = ''q1'', answers = [0, 7, 1, 2]\<rparr> ! i
                    \<and> answers \<lparr>quiz_id = ''q1'', answers = [0, 7, 1, 2]\<rparr> ! i
                        < int (length (options (questions sample_quiz ! i))))
             \<longrightarrow> i \<notin> {i. i < length (answers \<lparr>quiz_id = ''q1'', answers = [0, 7, 1, 2]\<rparr>)
                           \<and> i < length (questions sample_quiz)
                           \<and> answers \<lparr>quiz_id = ''q1'', answers = [0, 7, 1, 2]\<rparr> ! i
                               = answer (questions sample_quiz ! i)}"
    by blast
  have s: "sr_score r = 2" using r(3) n c by simp
  have t: "sr_total r = 3" using r(2) n by simp
  have x: "1 \<notin> {i. i < length [0, 7, 1, 2 :: int] \<and> i < length (questions sample_quiz)
                    \<and> [0, 7, 1, 2] ! i = answer (questions sample_quiz ! i)}"
    using r(4) [rule_format, of 1] o by simp
  from r(1) s t x show ?thesis by blast
qed

text \<open>
  Claim C8 as stated never counts an out-of-range selected index as correct. The stored
  quiz \<^verbatim>\<open>q2\<close> has two options and the correct index 5; the selected index 5 is out of
  range and is counted.
\<close>

theorem out_of_range_answer_counterexample:
  "fst (submit_quiz (Some sample_store) ''2024-06-01T09:00:00''
         \<lparr>quiz_id = ''q2'', answers = [5]\<rparr> [(''username'', ''bob'')])
     = Inr \<lparr>sr_status = ''submitted'', sr_score = 1, sr_total = 1\<rparr>
   \<and> length (options (questions odd_quiz ! 0)) = 2
   \<and> \<not> (5 < int (length (options (questions odd_quiz ! 0))))"
  by (simp add: submit_quiz_def count_correct_def sample_defs enumerate_eq_zip upt_rec)

section \<open>Attribution of advanced requests\<close>

text \<open>
  Claim C9. For an advanced generation route and two bearer tokens that both authenticate,
  the two requests that differ only in the token have the same response and leave the same
  store; the returned entry's \<^verbatim>\<open>user\<close> is the \<^verbatim>\<open>user\<close> of the request body, and the entry
  is persisted in the history of that user, whoever the token identifies.
\<close>

theorem advanced_entry_attributed_to_body_user:
  assumes "advanced ep"
    and "get_current_user env db t1 = Inr u1"
    and "get_current_user env db t2 = Inr u2"
  shows "handle ep env db now t1 req = handle ep env db now t2 req
   \<and> (\<not> isl (fst (handle ep env db now t1 req)) \<longrightarrow>
        entry_field (handle ep env db now t1 req) ''user'' = Some (req_user req))
   \<and> snd (handle ep env db now t1 req) =
        (case fst (handle ep env db now t1 req) of
           Inl err \<Rightarrow> db
         | Inr r \<Rightarrow> add_history db (req_user req) (resp_entry r))"
proof -
  have h1: "handle ep env db now t1 req = route ep env db now req u1"
    using assms(1,2) by (simp add: handle_def)
  have h2: "handle ep env db now t2 req = route ep env db now req u2"
    using assms(1,3) by (simp add: handle_def)
  have same: "handle ep env db now t1 req = handle ep env db now t2 req"
    unfolding h1 h2 by (rule route_current_user_independent)
  have usr: "\<not> isl (fst (handle ep env db now t1 req)) \<longrightarrow>
        entry_field (handle ep env db now t1 req) ''user'' = Some (req_user req)"
    unfolding h1 using route_user by blast
  have pers: "snd (handle ep env db now t1 req) =
        (case fst (handle ep env db now t1 req) of
           Inl err \<Rightarrow> db
         | Inr r \<Rightarrow> add_history db (req_user req) (resp_entry r))"
    unfolding h1 by (rule route_persists)
  from same usr pers show ?thesis by blast
qed

text \<open>
  The theorem for the tokens of the sample users alice and bob: both requests name alice in
  the body, and bob's request is attributed to alice as well.
\<close>

theorem advanced_entry_attributed_to_body_user_witness:
  "handle GenerateVoiceoverAdvanced env_failing (Some sample_store) ''2024-05-01T12:00:00''
       ''token-alice'' (sample_request None)
     = handle GenerateVoiceoverAdvanced env_failing (Some sample_store) ''2024-05-01T12:00:00''
       ''token-bob'' (sample_request None)
   \<and> entry_field (handle GenerateVoiceoverAdvanced env_failing (Some sample_store)
       ''2024-05-01T12:00:00'' ''token-bob'' (sample_request None)) ''user'' = Some ''alice''"
proof -
  have a: "advanced GenerateVoiceoverAdvanced" by (simp add: advanced_def)
  have ta: "get_current_user env_failing (Some sample_store) ''token-alice''
      = Inr [(''username'', ''alice'')]"
    by (simp add: get_current_user_def get_user_def env_failing_def sample_payload_def
        sample_store_def)
  have tb: "get_current_user env_failing (Some sample_store) ''token-bob''
      = Inr [(''username'', ''bob'')]"
    by (simp add: get_current_user_def get_user_def env_failing_def sample_payload_def
        sample_store_def)
  have ok: "\<not> isl (fst (handle GenerateVoiceoverAdvanced env_failing (Some sample_store)
       ''2024-05-01T12:00:00'' ''token-bob'' (sample_request None)))"
    by (simp add: handle_def a tb route_def generate_voiceover_advanced_def Let_def)
  have u: "req_user (sample_request None) = ''alice''" by (simp add: sample_request_def)
  from advanced_entry_attributed_to_body_user [OF a ta tb, of "''2024-05-01T12:00:00''"
      "sample_request None"]
    advanced_entry_attributed_to_body_user [OF a tb ta, of "''2024-05-01T12:00:00''"
      "sample_request None"] ok u
  show ?thesis by simp
qed

section \<open>Quiz listing\<close>

text \<open>
  Claim C10. With a configured store, the quiz listing returns, for every stored quiz in
  order, the quiz's dict with the key \<^verbatim>\<open>id\<close> added and nothing removed: a quiz dict has
  no top-level \<^verbatim>\<open>answer\<close> key for the \<^verbatim>\<open>pop\<close> to remove. The \<^verbatim>\<open>questions\<close> list of each
  listed quiz is the stored one, and each question in it still has its \<^verbatim>\<open>answer\<close> key
  with the correct-option index.
\<close>

theorem list_quizzes_keeps_answers:
  "list_quizzes (Some st) cu
     = Inr (map (\<lambda>(qid, q). quiz_dict q @ [(''id'', PStr qid)]) (quizzes st))
   \<and> map_of (quiz_dict q) ''answer'' = None
   \<and> map_of (quiz_dict q @ [(''id'', PStr qid)]) ''questions''
       = Some (PList (map (\<lambda>x. PDict (question_dict x)) (questions q)))
   \<and> map_of (question_dict x) ''answer'' = Some (PInt (answer x))"
proof -
  have step: "AList.delete ''answer'' (AList.update ''id'' (PStr i) (quiz_dict y))
      = quiz_dict y @ [(''id'', PStr i)]" for i y
    by (simp add: quiz_dict_def)
  have listing: "list_quizzes (Some st) cu
     = Inr (map (\<lambda>(qid, q). quiz_dict q @ [(''id'', PStr qid)]) (quizzes st))"
    by (simp add: list_quizzes_def step)
  have top: "map_of (quiz_dict q) ''answer'' = None"
    by (simp add: quiz_dict_def)
  have qs: "map_of (quiz_dict q @ [(''id'', PStr qid)]) ''questions''
       = Some (PList (map (\<lambda>x. PDict (question_dict x)) (questions q)))"
    by (simp add: quiz_dict_def)
  have ans: "map_of (question_dict x) ''answer'' = Some (PInt (answer x))"
    by (simp add: question_dict_def)
  from listing top qs ans show ?thesis by blast
qed

text \<open>The listing of the sample store: both quizzes come back with their answers.\<close>

theorem list_quizzes_keeps_answers_witness:
  "list_quizzes (Some sample_store) []
     = Inr [quiz_dict sample_quiz @ [(''id'', PStr ''q1'')],
            quiz_dict odd_quiz @ [(''id'', PStr ''q2'')] ]
   \<and> map_of (quiz_dict odd_quiz @ [(''id'', PStr ''q2'')]) ''questions''
       = Some (PList [PDict [(''question'', PStr ''Pick''),
                             (''options'', PList [PStr ''a'', PStr ''b'']),
                             (''answer'', PInt 5)] ])"
proof -
  have q: "quizzes sample_store = [(''q1'', sample_quiz), (''q2'', odd_quiz)]"
    by (simp add: sample_store_def)
  have d: "map (\<lambda>x. PDict (question_dict x)) (questions odd_quiz)
      = [PDict [(''question'', PStr ''Pick''), (''options'', PList [PStr ''a'', PStr ''b'']),
                (''answer'', PInt 5)] ]"
    by (simp add: odd_quiz_def question_dict_def)
  from list_quizzes_keeps_answers [of sample_store "[]" odd_quiz "''q2''"] q d
  show ?thesis by simp
qed

end
